theory Spec2Isabelle
  imports Complex_Main
begin

section \<open>Values, errors and dictionaries\<close>

text \<open>
  Modelled from the spec: the \<open>Source\<close> enum of \<open>models.models\<close> (not among the sources).
  The spec only says that it is an enum of named members with string values; a member
  is its name and its value, and the list of declared member names
  (\<open>Source.__members__\<close>) is a parameter of the functions that consult it.
\<close>

datatype Source = Member (member_name: string) (member_value: string)

text \<open>
  The dynamically typed values that a chunk dictionary, an insert row and a query hit
  hold: \<open>None\<close>, a \<open>str\<close>, an \<open>int\<close>, a list of floats (the embedding; floats are only
  carried, never computed with) and a \<open>Source\<close> member.
\<close>

datatype pyval = VNone | VStr string | VInt int | VVec "real list" | VSource Source

text \<open>The values of a metadata filter's fields: strings and \<open>Source\<close> members.\<close>

datatype fval = FStr string | FSource Source

fun as_pyval :: "fval \<Rightarrow> pyval" where
  "as_pyval (FStr s) = VStr s"
| "as_pyval (FSource m) = VSource m"

text \<open>
  The exceptions of the adapter: Python's own, and an exception \<open>e\<close> raised by the
  store, which the adapter never inspects.
\<close>

datatype 'e error = TypeError | AttributeError | IndexError | KeyError | StoreException 'e

text \<open>Python truthiness, as \<open>if v:\<close> and \<open>v or d\<close> read it.\<close>

fun truthy :: "pyval \<Rightarrow> bool" where
  "truthy VNone = False"
| "truthy (VStr s) = (s \<noteq> [])"
| "truthy (VInt i) = (i \<noteq> 0)"
| "truthy (VVec xs) = (xs \<noteq> [])"
| "truthy (VSource m) = True"

text \<open>\<open>v.value\<close>: only an enum member has the attribute.\<close>

fun attr_value :: "pyval \<Rightarrow> 'e error + pyval" where
  "attr_value (VSource m) = Inr (VStr (member_value m))"
| "attr_value v = Inl AttributeError"

text \<open>
  A \<open>dict\<close> as an association list with distinct keys, in insertion order:
  \<open>d.get(k)\<close>, \<open>d[k]\<close> (raises \<open>KeyError\<close>), \<open>d[k] = v\<close> and \<open>d.pop(k)\<close>.
\<close>

type_synonym pydict = "(string \<times> pyval) list"

fun dict_get :: "pydict \<Rightarrow> string \<Rightarrow> pyval" where
  "dict_get [] k = VNone"
| "dict_get ((k', v) # d) k = (if k' = k then v else dict_get d k)"

fun dict_item :: "pydict \<Rightarrow> string \<Rightarrow> 'e error + pyval" where
  "dict_item [] k = Inl KeyError"
| "dict_item ((k', v) # d) k = (if k' = k then Inr v else dict_item d k)"

fun dict_set :: "pydict \<Rightarrow> string \<Rightarrow> pyval \<Rightarrow> pydict" where
  "dict_set [] k v = [(k, v)]"
| "dict_set ((k', v') # d) k v = (if k' = k then (k, v) # d else (k', v') # dict_set d k v)"

fun dict_pop :: "pydict \<Rightarrow> string \<Rightarrow> 'e error + (pyval \<times> pydict)" where
  "dict_pop [] k = Inl KeyError"
| "dict_pop ((k', v) # d) k =
     (if k' = k then Inr (v, d)
      else case dict_pop d k of Inl e \<Rightarrow> Inl e | Inr (x, d') \<Rightarrow> Inr (x, (k', v) # d'))"

text \<open>\<open>str(n)\<close> of an \<open>int\<close>: its decimal digits, with a minus sign when negative.\<close>

fun str_nat :: "nat \<Rightarrow> string" where
  "str_nat n =
     (if n < 10 then [''0123456789'' ! n]
      else str_nat (n div 10) @ [''0123456789'' ! (n mod 10)])"

declare str_nat.simps [simp del]

definition str_int :: "int \<Rightarrow> string" where
  "str_int i = (if i < 0 then CHR ''-'' # str_nat (nat (- i)) else str_nat (nat i))"

text \<open>\<open>sep.join(xs)\<close>.\<close>

fun join :: "string \<Rightarrow> string list \<Rightarrow> string" where
  "join sep [] = []"
| "join sep [x] = x"
| "join sep (x # y # xs) = x @ sep @ join sep (y # xs)"

section \<open>The schema\<close>

datatype DataType = INT64 | FLOAT_VECTOR nat | VARCHAR nat

text \<open>The third component of a schema entry: the class \<open>Required\<close>, or a default value.\<close>

datatype dflt = Required | Default pyval

definition UPSERT_BATCH_SIZE :: nat where
  "UPSERT_BATCH_SIZE = 100"

definition OUTPUT_DIM :: nat where
  "OUTPUT_DIM = 384"

text \<open>
  \<open>SCHEMA\<close>: the field name, the declared type of the field (of its \<open>FieldSchema\<close>;
  \<open>pk\<close> is the primary key, generated by the store) and the default.
\<close>

definition SCHEMA :: "(string \<times> DataType \<times> dflt) list" where
  "SCHEMA =
    [(''pk'', INT64, Required),
     (''embedding'', FLOAT_VECTOR OUTPUT_DIM, Required),
     (''text'', VARCHAR 65535, Required),
     (''document_id'', VARCHAR 65535, Default (VStr '''')),
     (''source_id'', VARCHAR 65535, Default (VStr '''')),
     (''id'', VARCHAR 65535, Default (VStr '''')),
     (''source'', VARCHAR 65535, Default (VStr '''')),
     (''url'', VARCHAR 65535, Default (VStr '''')),
     (''created_at'', INT64, Default (VInt (- 1))),
     (''author'', VARCHAR 65535, Default (VStr ''''))]"

section \<open>The document model\<close>

text \<open>
  Modelled from the spec: the classes of \<open>models.models\<close> (not among the sources), as
  section 3 of the spec gives them. A chunk's \<open>id\<close> is a string; every field that the
  spec or the code lets be absent is an option, \<open>None\<close> when absent. \<open>id\<close> and \<open>text\<close>
  are written \<open>chunk_id\<close> and \<open>chunk_text\<close>.
\<close>

record DocumentChunkMetadata =
  document_id :: "string option"
  source_id :: "string option"
  source :: "Source option"
  url :: "string option"
  created_at :: "string option"
  author :: "string option"

record DocumentChunk =
  chunk_id :: string
  chunk_text :: "string option"
  embedding :: "real list option"
  metadata :: DocumentChunkMetadata

fun opt :: "('a \<Rightarrow> pyval) \<Rightarrow> 'a option \<Rightarrow> pyval" where
  "opt f None = VNone"
| "opt f (Some x) = f x"

text \<open>
  \<open>values = chunk.dict(); meta = values.pop("metadata"); values.update(meta)\<close>: one
  flat dictionary of the chunk's own fields followed by those of its metadata.
\<close>

definition chunk_dict :: "DocumentChunk \<Rightarrow> pydict" where
  "chunk_dict chunk =
    [(''id'', VStr (chunk_id chunk)),
     (''text'', opt VStr (chunk_text chunk)),
     (''embedding'', opt VVec (embedding chunk)),
     (''document_id'', opt VStr (document_id (metadata chunk))),
     (''source_id'', opt VStr (source_id (metadata chunk))),
     (''source'', opt VSource (source (metadata chunk))),
     (''url'', opt VStr (url (metadata chunk))),
     (''created_at'', opt VStr (created_at (metadata chunk))),
     (''author'', opt VStr (author (metadata chunk)))]"

section \<open>\<open>_get_values\<close>\<close>

text \<open>\<open>values.get(key) or default\<close>.\<close>

definition py_or :: "pyval \<Rightarrow> dflt \<Rightarrow> dflt" where
  "py_or v d = (if truthy v then Default v else d)"

text \<open>
  \<open>if values["created_at"]: values["created_at"] = to_unix_timestamp(values["created_at"])\<close>.
  \<open>to_unix_timestamp\<close> (\<open>services.date\<close>, not among the sources) is a parameter.
\<close>

definition convert_created_at :: "(pyval \<Rightarrow> int) \<Rightarrow> pydict \<Rightarrow> 'e error + pydict" where
  "convert_created_at to_unix_timestamp values =
    (case dict_item values ''created_at'' of
       Inl e \<Rightarrow> Inl e
     | Inr v \<Rightarrow>
         Inr (if truthy v then dict_set values ''created_at'' (VInt (to_unix_timestamp v))
              else values))"

text \<open>\<open>if values["source"]: values["source"] = values["source"].value\<close>.\<close>

definition convert_source :: "pydict \<Rightarrow> 'e error + pydict" where
  "convert_source values =
    (case dict_item values ''source'' of
       Inl e \<Rightarrow> Inl e
     | Inr v \<Rightarrow>
         if truthy v
         then (case attr_value v of
                 Inl e \<Rightarrow> Inl e
               | Inr s \<Rightarrow> Inr (dict_set values ''source'' s))
         else Inr values)"

text \<open>
  The message of the skip, \<open>"Chunk " + values["id"] + " missing " + key + " skipping"\<close>:
  the concatenation raises unless \<open>values["id"]\<close> is a \<open>str\<close>.
\<close>

definition skip_message :: "pydict \<Rightarrow> string \<Rightarrow> 'e error + string" where
  "skip_message values key =
    (case dict_item values ''id'' of
       Inl e \<Rightarrow> Inl e
     | Inr (VStr i) \<Rightarrow> Inr (''Chunk '' @ i @ '' missing '' @ key @ '' skipping'')
     | Inr _ \<Rightarrow> Inl TypeError)"

text \<open>
  The loop \<open>for key, _, default in SCHEMA[1:]\<close> with its list \<open>ret\<close>; the result \<open>None\<close>
  is the early \<open>return None\<close> of a chunk that misses a required field.
\<close>

fun collect_row ::
  "pydict \<Rightarrow> (string \<times> DataType \<times> dflt) list \<Rightarrow> pyval list \<Rightarrow> 'e error + pyval list option"
where
  "collect_row values [] ret = Inr (Some ret)"
| "collect_row values ((key, _, dflt) # rest) ret =
    (case py_or (dict_get values key) dflt of
       Required \<Rightarrow>
         (case skip_message values key of Inl e \<Rightarrow> Inl e | Inr _ \<Rightarrow> Inr None)
     | Default x \<Rightarrow> collect_row values rest (ret @ [x]))"

definition get_values :: "(pyval \<Rightarrow> int) \<Rightarrow> DocumentChunk \<Rightarrow> 'e error + pyval list option" where
  "get_values to_unix_timestamp chunk =
    (case convert_created_at to_unix_timestamp (chunk_dict chunk) of
       Inl e \<Rightarrow> Inl e
     | Inr values \<Rightarrow>
         (case convert_source values of
            Inl e \<Rightarrow> Inl e
          | Inr values' \<Rightarrow> collect_row values' (drop 1 SCHEMA) []))"

section \<open>\<open>_get_filter\<close>\<close>

text \<open>
  Modelled from the spec: \<open>DocumentMetadataFilter\<close> of \<open>models.models\<close> (not among the
  sources), with the fields and the field order of section 3 of the spec. The fields
  that share a name with a chunk's metadata carry the prefix \<open>filter_\<close>.
\<close>

record DocumentMetadataFilter =
  filter_document_id :: "string option"
  filter_source_id :: "string option"
  filter_source :: "Source option"
  filter_author :: "string option"
  start_date :: "string option"
  end_date :: "string option"

text \<open>\<open>filter.dict().items()\<close>: every declared field, in order, with its value or \<open>None\<close>.\<close>

definition filter_dict :: "DocumentMetadataFilter \<Rightarrow> (string \<times> fval option) list" where
  "filter_dict f =
    [(''document_id'', map_option FStr (filter_document_id f)),
     (''source_id'', map_option FStr (filter_source_id f)),
     (''source'', map_option FSource (filter_source f)),
     (''author'', map_option FStr (filter_author f)),
     (''start_date'', map_option FStr (start_date f)),
     (''end_date'', map_option FStr (end_date f))]"

text \<open>
  \<open>str(v)\<close> of a filter value (a plain enum member prints as \<open>Source.name\<close>), and
  \<open>v.value\<close>, which only an enum member has.
\<close>

fun str_fval :: "fval \<Rightarrow> string" where
  "str_fval (FStr s) = s"
| "str_fval (FSource m) = ''Source.'' @ member_name m"

fun value_of :: "fval \<Rightarrow> 'e error + fval" where
  "value_of (FSource m) = Inr (FStr (member_value m))"
| "value_of (FStr s) = Inl AttributeError"

text \<open>
  The loop \<open>for field, value in filter.dict().items()\<close> with its list \<open>filters\<close>: a
  field that is \<open>None\<close> is passed over, any other appends one expression, chosen by
  the \<open>if\<close>/\<open>elif\<close> chain on the field's name.
\<close>

fun filter_loop ::
  "(pyval \<Rightarrow> int) \<Rightarrow> (string \<times> fval option) list \<Rightarrow> string list \<Rightarrow> 'e error + string list"
where
  "filter_loop to_unix_timestamp [] filters = Inr filters"
| "filter_loop to_unix_timestamp ((field, None) # items) filters =
     filter_loop to_unix_timestamp items filters"
| "filter_loop to_unix_timestamp ((field, Some v) # items) filters =
     (if field = ''start_date'' then
        filter_loop to_unix_timestamp items
          (filters @ [''(created_at >= '' @ str_int (to_unix_timestamp (as_pyval v)) @ '')''])
      else if field = ''end_date'' then
        filter_loop to_unix_timestamp items
          (filters @ [''(created_at <= '' @ str_int (to_unix_timestamp (as_pyval v)) @ '')''])
      else if field = ''source'' then
        (case value_of v of
           Inl e \<Rightarrow> Inl e
         | Inr s \<Rightarrow>
             filter_loop to_unix_timestamp items
               (filters @ [''('' @ field @ '' == \"'' @ str_fval s @ ''\")'']))
      else
        filter_loop to_unix_timestamp items
          (filters @ [''('' @ field @ '' == \"'' @ str_fval v @ ''\")'']))"

definition get_filter :: "(pyval \<Rightarrow> int) \<Rightarrow> DocumentMetadataFilter \<Rightarrow> 'e error + string" where
  "get_filter to_unix_timestamp f =
    (case filter_loop to_unix_timestamp (filter_dict f) [] of
       Inl e \<Rightarrow> Inl e
     | Inr filters \<Rightarrow> Inr (join '' and '' filters))"

section \<open>The store\<close>

text \<open>
  The collection handle \<open>self.col\<close> of the external store, as the operations the
  adapter calls on a store state \<open>'st\<close>; each may raise an exception \<open>'e\<close> of the
  store. A search returns the hits of its one query vector (\<open>res[0]\<close>), a query the
  primary keys of the matching entries (\<open>entry["pk"]\<close>), a delete its
  \<open>delete_count\<close>. \<open>_create_collection\<close>, the bootstrap of the collection, its index
  and its loading, is taken as one operation. The search parameters
  (\<open>param=self.search_params\<close>) are fixed for the data store and part of \<open>col_search\<close>.
\<close>

record search_request =
  req_data :: "real list list"
  req_anns_field :: string
  req_limit :: int
  req_expr :: "string option"
  req_output_fields :: "string list"

record hit =
  hit_score :: real
  hit_entity :: pydict

record ('st, 'e) collection =
  col_insert :: "pyval list list \<Rightarrow> 'st \<Rightarrow> 'e + 'st"
  col_search :: "search_request \<Rightarrow> 'st \<Rightarrow> 'e + hit list"
  col_query :: "string \<Rightarrow> 'st \<Rightarrow> 'e + int list"
  col_delete :: "string \<Rightarrow> 'st \<Rightarrow> 'e + (int \<times> 'st)"
  col_release :: "'st \<Rightarrow> 'e + 'st"
  col_drop :: "'st \<Rightarrow> 'e + 'st"
  create_collection :: "bool \<Rightarrow> 'st \<Rightarrow> 'e + 'st"

section \<open>\<open>_upsert\<close>\<close>

text \<open>
  \<open>for x in range(len(insert_data)): insert_data[x].append(list_of_data[x])\<close>; the
  index raises on a row shorter than the list of columns.
\<close>

definition append_row :: "pyval list list \<Rightarrow> pyval list \<Rightarrow> 'e error + pyval list list" where
  "append_row insert_data list_of_data =
    (if length list_of_data < length insert_data then Inl IndexError
     else Inr (map (\<lambda>x. insert_data ! x @ [list_of_data ! x]) [0..<length insert_data]))"

text \<open>The loop \<open>for chunk in chunk_list\<close>.\<close>

fun collect_chunks ::
  "(pyval \<Rightarrow> int) \<Rightarrow> DocumentChunk list \<Rightarrow> pyval list list \<Rightarrow> 'e error + pyval list list"
where
  "collect_chunks to_unix_timestamp [] insert_data = Inr insert_data"
| "collect_chunks to_unix_timestamp (chunk # chunk_list) insert_data =
    (case get_values to_unix_timestamp chunk of
       Inl e \<Rightarrow> Inl e
     | Inr None \<Rightarrow> collect_chunks to_unix_timestamp chunk_list insert_data
     | Inr (Some list_of_data) \<Rightarrow>
         (case append_row insert_data list_of_data of
            Inl e \<Rightarrow> Inl e
          | Inr insert_data' \<Rightarrow> collect_chunks to_unix_timestamp chunk_list insert_data'))"

text \<open>
  The loop \<open>for doc_id, chunk_list in chunks.items()\<close>; the input dictionary is the
  list of its items in insertion order.
\<close>

fun collect_documents ::
  "(pyval \<Rightarrow> int) \<Rightarrow> (string \<times> DocumentChunk list) list \<Rightarrow> string list \<Rightarrow> pyval list list \<Rightarrow>
     'e error + (string list \<times> pyval list list)"
where
  "collect_documents to_unix_timestamp [] doc_ids insert_data = Inr (doc_ids, insert_data)"
| "collect_documents to_unix_timestamp ((doc_id, chunk_list) # chunks) doc_ids insert_data =
    (case collect_chunks to_unix_timestamp chunk_list insert_data of
       Inl e \<Rightarrow> Inl e
     | Inr insert_data' \<Rightarrow>
         collect_documents to_unix_timestamp chunks (doc_ids @ [doc_id]) insert_data')"

text \<open>\<open>xs[i : j]\<close> and \<open>range(0, n, step)\<close>, for \<open>i \<le> j\<close> and a positive step.\<close>

definition slice :: "'a list \<Rightarrow> nat \<Rightarrow> nat \<Rightarrow> 'a list" where
  "slice xs i j = take (j - i) (drop i xs)"

definition range_step :: "nat \<Rightarrow> nat \<Rightarrow> nat list" where
  "range_step n step = map (\<lambda>k. k * step) [0..<(n + step - 1) div step]"

text \<open>
  \<open>batches = [insert_data[i : i + UPSERT_BATCH_SIZE]
     for i in range(0, len(insert_data), UPSERT_BATCH_SIZE)]\<close>
\<close>

definition make_batches :: "pyval list list \<Rightarrow> pyval list list list" where
  "make_batches insert_data =
    map (\<lambda>i. slice insert_data i (i + UPSERT_BATCH_SIZE))
      (range_step (length insert_data) UPSERT_BATCH_SIZE)"

text \<open>
  The loop \<open>for batch in batches\<close>: a batch whose first column is not empty is
  inserted, and an exception of the store is raised again as it is.
\<close>

fun insert_batches ::
  "(pyval list list \<Rightarrow> 'st \<Rightarrow> 'e + 'st) \<Rightarrow> pyval list list list \<Rightarrow> 'st \<Rightarrow> 'e error + 'st"
where
  "insert_batches ins [] st = Inr st"
| "insert_batches ins (batch # batches) st =
    (case batch of
       [] \<Rightarrow> Inl IndexError
     | column # _ \<Rightarrow>
         if length column \<noteq> 0
         then (case ins batch st of
                 Inl e \<Rightarrow> Inl (StoreException e)
               | Inr st' \<Rightarrow> insert_batches ins batches st')
         else insert_batches ins batches st)"


definition upsert ::
  "(pyval \<Rightarrow> int) \<Rightarrow> ('st, 'e) collection \<Rightarrow> (string \<times> DocumentChunk list) list \<Rightarrow> 'st \<Rightarrow>
     'e error + (string list \<times> 'st)"
where
  "upsert to_unix_timestamp col chunks st =
    (case collect_documents to_unix_timestamp chunks [] (replicate (length SCHEMA - 1) []) of
       Inl e \<Rightarrow> Inl e
     | Inr (doc_ids, insert_data) \<Rightarrow>
         (case insert_batches (col_insert col) (make_batches insert_data) st of
            Inl e \<Rightarrow> Inl e
          | Inr st' \<Rightarrow> Inr (doc_ids, st')))"

section \<open>\<open>_query\<close>\<close>

text \<open>
  Modelled from the spec: the query and result classes of \<open>models.models\<close> (not among
  the sources). A \<open>DocumentChunkWithScore\<close> holds the arguments that \<open>_single_query\<close>
  gives its constructor: \<open>id\<close>, \<open>score\<close>, \<open>text\<close> and, for
  \<open>DocumentChunkMetadata(**metadata)\<close>, the dictionary of keyword arguments.
\<close>

record QueryWithEmbedding =
  q_query :: string
  q_filter :: "DocumentMetadataFilter option"
  q_top_k :: int
  q_embedding :: "real list"

record DocumentChunkWithScore =
  res_id :: pyval
  res_score :: real
  res_text :: pyval
  res_metadata :: pydict

record QueryResult =
  r_query :: string
  r_results :: "DocumentChunkWithScore list"

text \<open>\<open>[field[0] for field in SCHEMA[2:]]\<close>, commented "Ignoring pk, embedding".\<close>

definition output_fields :: "string list" where
  "output_fields = map fst (drop 2 SCHEMA)"

text \<open>
  \<open>v in Source.__members__\<close>, a lookup of \<open>v\<close> among the member names: a list is
  unhashable and raises, a value that is no string is no key.
\<close>

fun in_members :: "string list \<Rightarrow> pyval \<Rightarrow> 'e error + bool" where
  "in_members names (VStr s) = Inr (s \<in> set names)"
| "in_members names (VVec xs) = Inl TypeError"
| "in_members names v = Inr False"

text \<open>The body of the loop \<open>for hit in res[0]\<close>.\<close>

definition hit_chunk :: "string list \<Rightarrow> hit \<Rightarrow> 'e error + DocumentChunkWithScore" where
  "hit_chunk names h =
    (let meta = fold (\<lambda>x m. dict_set m x (dict_get (hit_entity h) x)) output_fields [] in
     case dict_item meta ''source'' of
       Inl e \<Rightarrow> Inl e
     | Inr s \<Rightarrow>
     (case in_members names s of
        Inl e \<Rightarrow> Inl e
      | Inr known \<Rightarrow>
      (case dict_pop (if \<not> known then dict_set meta ''source'' VNone else meta) ''text'' of
         Inl e \<Rightarrow> Inl e
       | Inr (txt, meta') \<Rightarrow>
       (case dict_pop meta' ''id'' of
          Inl e \<Rightarrow> Inl e
        | Inr (ids, meta'') \<Rightarrow>
            Inr \<lparr>res_id = ids, res_score = hit_score h, res_text = txt,
                 res_metadata = meta''\<rparr>))))"

fun hit_chunks ::
  "string list \<Rightarrow> hit list \<Rightarrow> DocumentChunkWithScore list \<Rightarrow> 'e error + DocumentChunkWithScore list"
where
  "hit_chunks names [] results = Inr results"
| "hit_chunks names (h # hits) results =
    (case hit_chunk names h of
       Inl e \<Rightarrow> Inl e
     | Inr chunk \<Rightarrow> hit_chunks names hits (results @ [chunk]))"

text \<open>The filter expression of a query: \<open>None\<close>, or what \<open>_get_filter\<close> returns.\<close>

definition query_expr ::
  "(pyval \<Rightarrow> int) \<Rightarrow> QueryWithEmbedding \<Rightarrow> 'e error + string option"
where
  "query_expr to_unix_timestamp query =
    (case q_filter query of
       None \<Rightarrow> Inr None
     | Some f \<Rightarrow>
         (case get_filter to_unix_timestamp f of Inl e \<Rightarrow> Inl e | Inr x \<Rightarrow> Inr (Some x)))"

text \<open>The arguments of \<open>self.col.search\<close>.\<close>

definition search_args :: "string option \<Rightarrow> QueryWithEmbedding \<Rightarrow> search_request" where
  "search_args flt query =
    \<lparr>req_data = [q_embedding query], req_anns_field = ''embedding'',
     req_limit = q_top_k query, req_expr = flt, req_output_fields = output_fields\<rparr>"

definition single_query ::
  "(pyval \<Rightarrow> int) \<Rightarrow> string list \<Rightarrow> ('st, 'e) collection \<Rightarrow> 'st \<Rightarrow> QueryWithEmbedding \<Rightarrow>
     'e error + QueryResult"
where
  "single_query to_unix_timestamp names col st query =
    (case query_expr to_unix_timestamp query of
       Inl e \<Rightarrow> Inl e
     | Inr flt \<Rightarrow>
     (case col_search col (search_args flt query) st of
        Inl e \<Rightarrow> Inl (StoreException e)
      | Inr hits \<Rightarrow>
      (case hit_chunks names hits [] of
         Inl e \<Rightarrow> Inl e
       | Inr results \<Rightarrow> Inr \<lparr>r_query = q_query query, r_results = results\<rparr>)))"

text \<open>
  \<open>asyncio.gather\<close> over the outcomes of its tasks: the results in the order of the
  tasks given, whatever the order \<open>finished\<close> (the indices of the tasks) in which they
  complete; the exception raised is that of the first task to fail.
\<close>

fun first_error :: "('x + 'a) list \<Rightarrow> 'x option" where
  "first_error [] = None"
| "first_error (Inl e # outs) = Some e"
| "first_error (Inr x # outs) = first_error outs"

fun the_results :: "('x + 'a) list \<Rightarrow> 'a list" where
  "the_results [] = []"
| "the_results (Inl e # outs) = the_results outs"
| "the_results (Inr x # outs) = x # the_results outs"

definition gather :: "nat list \<Rightarrow> ('x + 'a) list \<Rightarrow> 'x + 'a list" where
  "gather finished outs =
    (case first_error (map (\<lambda>i. outs ! i) (filter (\<lambda>i. i < length outs) finished) @ outs) of
       Some e \<Rightarrow> Inl e
     | None \<Rightarrow> Inr (the_results outs))"

definition query ::
  "nat list \<Rightarrow> (pyval \<Rightarrow> int) \<Rightarrow> string list \<Rightarrow> ('st, 'e) collection \<Rightarrow> 'st \<Rightarrow>
     QueryWithEmbedding list \<Rightarrow> 'e error + QueryResult list"
where
  "query finished to_unix_timestamp names col st queries =
    gather finished (map (single_query to_unix_timestamp names col st) queries)"

section \<open>\<open>delete\<close>\<close>

text \<open>The branch \<open>if ids is not None\<close>, with the running \<open>delete_count\<close>.\<close>

definition delete_ids ::
  "('st, 'e) collection \<Rightarrow> string list option \<Rightarrow> int \<Rightarrow> 'st \<Rightarrow> 'e error + (int \<times> 'st)"
where
  "delete_ids col ids delete_count st =
    (case ids of
       None \<Rightarrow> Inr (delete_count, st)
     | Some ids \<Rightarrow>
         if length ids \<noteq> 0 then
           (case col_query col
                   (''document_id in ['' @ join '','' (map (\<lambda>i. ''\"'' @ i @ ''\"'') ids) @ '']'') st of
              Inl e \<Rightarrow> Inl (StoreException e)
            | Inr entries \<Rightarrow>
                if length (map str_int entries) \<noteq> 0 then
                  (case col_delete col (''pk in ['' @ join '','' (map str_int entries) @ '']'') st of
                     Inl e \<Rightarrow> Inl (StoreException e)
                   | Inr (n, st') \<Rightarrow> Inr (delete_count + n, st'))
                else Inr (delete_count, st))
         else Inr (delete_count, st))"

text \<open>The branch \<open>if filter is not None\<close>.\<close>

definition delete_filter ::
  "(pyval \<Rightarrow> int) \<Rightarrow> ('st, 'e) collection \<Rightarrow> DocumentMetadataFilter option \<Rightarrow> int \<Rightarrow> 'st \<Rightarrow>
     'e error + (int \<times> 'st)"
where
  "delete_filter to_unix_timestamp col flt delete_count st =
    (case flt of
       None \<Rightarrow> Inr (delete_count, st)
     | Some f \<Rightarrow>
         (case get_filter to_unix_timestamp f of
            Inl e \<Rightarrow> Inl e
          | Inr x \<Rightarrow>
              if length x \<noteq> 0 then
                (case col_query col x st of
                   Inl e \<Rightarrow> Inl (StoreException e)
                 | Inr entries \<Rightarrow>
                     if length (map str_int entries) \<noteq> 0 then
                       (case col_delete col
                               (''pk in ['' @ join '','' (map str_int entries) @ '']'') st of
                          Inl e \<Rightarrow> Inl (StoreException e)
                        | Inr (n, st') \<Rightarrow> Inr (delete_count + n, st'))
                     else Inr (delete_count, st))
              else Inr (delete_count, st)))"

text \<open>\<open>if delete_all:\<close> holds for \<open>True\<close> only, of \<open>None\<close>, \<open>False\<close> and \<open>True\<close>.\<close>

definition delete ::
  "(pyval \<Rightarrow> int) \<Rightarrow> ('st, 'e) collection \<Rightarrow> string list option \<Rightarrow>
     DocumentMetadataFilter option \<Rightarrow> bool option \<Rightarrow> 'st \<Rightarrow> 'e error + (bool \<times> 'st)"
where
  "delete to_unix_timestamp col ids flt delete_all st =
    (if delete_all = Some True then
       (case col_release col st of
          Inl e \<Rightarrow> Inl (StoreException e)
        | Inr st1 \<Rightarrow>
        (case col_drop col st1 of
           Inl e \<Rightarrow> Inl (StoreException e)
         | Inr st2 \<Rightarrow>
         (case create_collection col True st2 of
            Inl e \<Rightarrow> Inl (StoreException e)
          | Inr st3 \<Rightarrow> Inr (True, st3))))
     else
       (case delete_ids col ids 0 st of
          Inl e \<Rightarrow> Inl e
        | Inr (delete_count, st1) \<Rightarrow>
        (case delete_filter to_unix_timestamp col flt delete_count st1 of
           Inl e \<Rightarrow> Inl e
         | Inr (delete_count', st2) \<Rightarrow> Inr (True, st2))))"

section \<open>Auxiliary definitions\<close>

text \<open>
  The dictionary \<open>values\<close> of \<open>_get_values\<close> after its two conversions, written out
  for a chunk: \<open>created_at\<close> is the timestamp of a non-empty date, \<open>source\<close> the
  value of the member.
\<close>

definition converted :: "(pyval \<Rightarrow> int) \<Rightarrow> DocumentChunk \<Rightarrow> pydict" where
  "converted to_unix_timestamp chunk =
    [(''id'', VStr (chunk_id chunk)),
     (''text'', opt VStr (chunk_text chunk)),
     (''embedding'', opt VVec (embedding chunk)),
     (''document_id'', opt VStr (document_id (metadata chunk))),
     (''source_id'', opt VStr (source_id (metadata chunk))),
     (''source'', opt (\<lambda>m. VStr (member_value m)) (source (metadata chunk))),
     (''url'', opt VStr (url (metadata chunk))),
     (''created_at'',
        (case created_at (metadata chunk) of
           None \<Rightarrow> VNone
         | Some s \<Rightarrow> if s = [] then VStr [] else VInt (to_unix_timestamp (VStr s)))),
     (''author'', opt VStr (author (metadata chunk)))]"


text \<open>
  A chunk survives \<open>_get_values\<close> when its two required fields are truthy;
  \<open>surviving\<close> counts the surviving chunks of an upsert input.
\<close>

definition survives :: "DocumentChunk \<Rightarrow> bool" where
  "survives chunk \<longleftrightarrow> truthy (opt VVec (embedding chunk)) \<and> truthy (opt VStr (chunk_text chunk))"

definition surviving :: "(string \<times> DocumentChunk list) list \<Rightarrow> nat" where
  "surviving chunks = length (filter survives (concat (map snd chunks)))"


text \<open>
  A store that records the batches given to \<open>insert\<close>, in order: its state is the
  list of the insert calls made so far. The other operations do nothing.
\<close>

definition recording :: "(pyval list list list, string) collection" where
  "recording =
    \<lparr>col_insert = (\<lambda>batch st. Inr (st @ [batch])),
     col_search = (\<lambda>req st. Inr []),
     col_query = (\<lambda>x st. Inr []),
     col_delete = (\<lambda>x st. Inr (0, st)),
     col_release = Inr,
     col_drop = Inr,
     create_collection = (\<lambda>create_new. Inr)\<rparr>"


text \<open>A chunk with every field populated, and one without text.\<close>

definition full_chunk :: DocumentChunk where
  "full_chunk =
    \<lparr>chunk_id = ''doc_0'', chunk_text = Some ''hello'', embedding = Some [1, 2],
     metadata =
       \<lparr>document_id = Some ''doc'', source_id = Some ''s1'',
        source = Some (Member ''email'' ''email''), url = Some ''http://x'',
        created_at = Some ''2023-01-01'', author = Some ''me''\<rparr>\<rparr>"

definition no_text_chunk :: DocumentChunk where
  "no_text_chunk = full_chunk\<lparr>chunk_text := None\<rparr>"

text \<open>The filter with no field set.\<close>

definition no_filter :: DocumentMetadataFilter where
  "no_filter =
    \<lparr>filter_document_id = None, filter_source_id = None, filter_source = None,
     filter_author = None, start_date = None, end_date = None\<rparr>"

text \<open>
  The hit that stands for an inserted row in a search result: the values of the row
  under the names of its columns, those of the requested output fields only, with a
  score. The store itself is external; this is the reading of "reassembling a result
  from those field values" that the round trip is stated for.
\<close>

definition row_hit :: "real \<Rightarrow> pyval list \<Rightarrow> hit" where
  "row_hit sc row =
    \<lparr>hit_score = sc,
     hit_entity = filter (\<lambda>(k, v). k \<in> set output_fields) (zip (map fst (drop 1 SCHEMA)) row)\<rparr>"

text \<open>
  Example data: member names, a query, a hit whose source is no member, and a store
  whose every search returns given hits.
\<close>

definition source_names :: "string list" where
  "source_names = [''email'', ''file'', ''chat'']"

definition plain_query :: QueryWithEmbedding where
  "plain_query = \<lparr>q_query = ''q'', q_filter = None, q_top_k = 3, q_embedding = [1, 2]\<rparr>"

definition fax_hit :: hit where
  "fax_hit =
    \<lparr>hit_score = 1,
     hit_entity =
       [(''text'', VStr ''hello''), (''document_id'', VStr ''doc''), (''source_id'', VStr []),
        (''id'', VStr ''doc_0''), (''source'', VStr ''fax''), (''url'', VStr []),
        (''created_at'', VInt (- 1)), (''author'', VStr [])]\<rparr>"

definition email_hit :: hit where
  "email_hit =
    \<lparr>hit_score = 2,
     hit_entity =
       [(''text'', VStr ''world''), (''document_id'', VStr ''doc''), (''source_id'', VStr []),
        (''id'', VStr ''doc_1''), (''source'', VStr ''email''), (''url'', VStr []),
        (''created_at'', VInt (- 1)), (''author'', VStr [])]\<rparr>"

definition searching :: "hit list \<Rightarrow> (pyval list list list, string) collection" where
  "searching hits = recording\<lparr>col_search := (\<lambda>req st. Inr hits)\<rparr>"

section \<open>Properties of \<open>_get_values\<close>\<close>

lemma convert_created_at_chunk:
  "convert_created_at tut (chunk_dict c) =
     Inr (dict_set (chunk_dict c) ''created_at''
            (case created_at (metadata c) of
               None \<Rightarrow> VNone
             | Some s \<Rightarrow> if s = [] then VStr [] else VInt (tut (VStr s))))"
  by (cases "created_at (metadata c)") (simp_all add: convert_created_at_def chunk_dict_def)

lemma get_values_converted:
  "get_values tut c = collect_row (converted tut c) (drop 1 SCHEMA) []"
  unfolding get_values_def convert_created_at_chunk
  by (cases "source (metadata c)")
     (simp_all add: convert_source_def chunk_dict_def converted_def)

lemma collect_row_default:
  "collect_row values ((k, t, Default d) # rest) ret =
     collect_row values rest (ret @ [if truthy (dict_get values k) then dict_get values k else d])"
  by (simp add: py_or_def)

lemma collect_row_required:
  "collect_row values ((k, t, Required) # rest) ret =
     (if truthy (dict_get values k) then collect_row values rest (ret @ [dict_get values k])
      else (case skip_message values k of Inl e \<Rightarrow> Inl e | Inr _ \<Rightarrow> Inr None))"
  by (simp add: py_or_def)

lemma skip_message_converted:
  "skip_message (converted tut c) k = Inr (''Chunk '' @ chunk_id c @ '' missing '' @ k @ '' skipping'')"
  by (simp add: skip_message_def converted_def)

lemma or_empty: "(if truthy (opt VStr x) then opt VStr x else VStr []) = VStr (case x of None \<Rightarrow> [] | Some s \<Rightarrow> s)"
  by (cases x) auto

lemma get_values_skip:
  "\<not> truthy (opt VVec (embedding c)) \<or> \<not> truthy (opt VStr (chunk_text c)) \<Longrightarrow> get_values tut c = Inr None"
  unfolding get_values_converted SCHEMA_def
  apply (simp only: drop_Suc_Cons drop_0 One_nat_def collect_row_required skip_message_converted)
  apply (auto simp: converted_def)
  done

lemma get_values_row:
  assumes "chunk_text c = Some t" "t \<noteq> []" "embedding c = Some e" "e \<noteq> []"
  shows "get_values tut c =
     Inr (Some [VVec e, VStr t,
        VStr (case document_id (metadata c) of None \<Rightarrow> [] | Some s \<Rightarrow> s),
        VStr (case source_id (metadata c) of None \<Rightarrow> [] | Some s \<Rightarrow> s),
        VStr (chunk_id c),
        VStr (case source (metadata c) of None \<Rightarrow> [] | Some m \<Rightarrow> member_value m),
        VStr (case url (metadata c) of None \<Rightarrow> [] | Some s \<Rightarrow> s),
        VInt (case created_at (metadata c) of None \<Rightarrow> - 1
              | Some s \<Rightarrow> if s = [] \<or> tut (VStr s) = 0 then - 1 else tut (VStr s)),
        VStr (case author (metadata c) of None \<Rightarrow> [] | Some s \<Rightarrow> s)])"
proof -
  have src: "(if truthy (opt (\<lambda>m. VStr (member_value m)) x) then opt (\<lambda>m. VStr (member_value m)) x else VStr [])
     = VStr (case x of None \<Rightarrow> [] | Some m \<Rightarrow> member_value m)" for x
    by (cases x) auto
  have cr: "(if truthy (case x of None \<Rightarrow> VNone | Some s \<Rightarrow> if s = [] then VStr [] else VInt (tut (VStr s)))
       then (case x of None \<Rightarrow> VNone | Some s \<Rightarrow> if s = [] then VStr [] else VInt (tut (VStr s))) else VInt (- 1))
     = VInt (case x of None \<Rightarrow> - 1 | Some s \<Rightarrow> if s = [] \<or> tut (VStr s) = 0 then - 1 else tut (VStr s))" for x
    by (cases x) auto
  have idc: "(if i \<noteq> [] then VStr i else VStr []) = VStr i" for i by auto
  show ?thesis
    unfolding get_values_converted SCHEMA_def
    apply (simp only: drop_Suc_Cons drop_0 One_nat_def collect_row_required collect_row_default)
    apply (simp add: converted_def assms or_empty src cr idc split del: if_split cong del: if_weak_cong)
    done
qed

section \<open>Properties of \<open>_upsert\<close>\<close>

lemma collect_row_length:
  "(collect_row values fs ret :: 'e error + pyval list option) = Inr (Some row) \<Longrightarrow>
     length row = length ret + length fs"
proof (induction fs arbitrary: ret)
  case Nil
  then show ?case by simp
next
  case (Cons f fs)
  obtain k t d where f: "f = (k, t, d)" by (cases f)
  show ?case
  proof (cases "py_or (dict_get values k) d")
    case Required
    with Cons.prems f show ?thesis by (simp split: sum.splits)
  next
    case (Default x)
    with Cons.prems f
    have "(collect_row values fs (ret @ [x]) :: 'e error + pyval list option) = Inr (Some row)"
      by simp
    from Cons.IH[OF this] show ?thesis by simp
  qed
qed

lemma collect_row_converted:
  "\<exists>r. (collect_row (converted tut c) fs ret :: 'e error + pyval list option) = Inr r"
proof (induction fs arbitrary: ret)
  case Nil
  then show ?case by simp
next
  case (Cons f fs)
  obtain k t d where f: "f = (k, t, d)" by (cases f)
  show ?case
    using Cons.IH by (cases "py_or (dict_get (converted tut c) k) d") (simp_all add: f skip_message_converted)
qed

lemma get_values_survives:
  assumes "survives c"
  shows "\<exists>row. (get_values tut c :: 'e error + pyval list option) = Inr (Some row) \<and> length row = 9"
proof -
  from assms obtain t e where te: "chunk_text c = Some t" "t \<noteq> []" "embedding c = Some e" "e \<noteq> []"
    by (cases "chunk_text c"; cases "embedding c") (auto simp: survives_def)
  show ?thesis by (simp add: get_values_row[OF te])
qed

lemma get_values_not_survives:
  "\<not> survives c \<Longrightarrow> (get_values tut c :: 'e error + pyval list option) = Inr None"
  by (rule get_values_skip) (auto simp: survives_def)

lemma append_row_columns:
  assumes "length row = length data" "list_all (\<lambda>column. length column = n) data"
  shows "\<exists>data'. (append_row data row :: 'e error + pyval list list) = Inr data' \<and>
           length data' = length data \<and>
           list_all (\<lambda>column. length column = Suc n) data'"
  using assms by (auto simp: append_row_def list_all_iff)

lemma collect_chunks_columns:
  assumes "length data = 9" "list_all (\<lambda>column. length column = n) data"
  shows "\<exists>data'. (collect_chunks tut cs data :: 'e error + pyval list list) = Inr data' \<and>
           length data' = 9 \<and>
           list_all (\<lambda>column. length column = n + length (filter survives cs)) data'"
  using assms
proof (induction cs arbitrary: data n)
  case Nil
  then show ?case by simp
next
  case (Cons c cs)
  show ?case
  proof (cases "survives c")
    case True
    then obtain row where
      row: "(get_values tut c :: 'e error + pyval list option) = Inr (Some row)" "length row = 9"
      using get_values_survives by blast
    with Cons.prems obtain data' where
      d: "(append_row data row :: 'e error + pyval list list) = Inr data'" "length data' = 9"
        "list_all (\<lambda>column. length column = Suc n) data'"
      using append_row_columns[of row data n] by auto
    from Cons.IH[OF d(2,3)] row d(1) True show ?thesis by simp
  next
    case False
    with Cons.IH[OF Cons.prems] show ?thesis by (simp add: get_values_not_survives)
  qed
qed

lemma collect_documents_columns:
  assumes "length data = 9" "list_all (\<lambda>column. length column = n) data"
  shows "\<exists>data'. (collect_documents tut chunks doc_ids data
             :: 'e error + (string list \<times> pyval list list)) = Inr (doc_ids @ map fst chunks, data') \<and>
           length data' = 9 \<and>
           list_all (\<lambda>column. length column = n + surviving chunks) data'"
  using assms
proof (induction chunks arbitrary: data n doc_ids)
  case Nil
  then show ?case by (simp add: surviving_def)
next
  case (Cons p chunks)
  obtain doc_id chunk_list where p: "p = (doc_id, chunk_list)" by (cases p)
  from collect_chunks_columns[OF Cons.prems, of tut chunk_list]
  obtain data1 where
    d: "(collect_chunks tut chunk_list data :: 'e error + pyval list list) = Inr data1" "length data1 = 9"
     "list_all (\<lambda>column. length column = n + length (filter survives chunk_list)) data1" by blast
  from Cons.IH[OF d(2,3), of "doc_ids @ [doc_id]"] d(1) p show ?case
    by (auto simp: surviving_def add.assoc)
qed

lemma make_batches_single:
  "length data = 9 \<Longrightarrow> make_batches data = [data]"
  by (simp add: make_batches_def range_step_def UPSERT_BATCH_SIZE_def slice_def)

lemma upsert_one_insert:
  "\<exists>data. length data = 9 \<and> list_all (\<lambda>column. length column = surviving chunks) data \<and>
     upsert tut (col :: ('st, 'e) collection) chunks st =
       (if surviving chunks = 0 then Inr (map fst chunks, st)
        else case col_insert col data st of
               Inl e \<Rightarrow> Inl (StoreException e)
             | Inr st' \<Rightarrow> Inr (map fst chunks, st'))"
proof -
  have "length (replicate (length SCHEMA - 1) ([] :: pyval list)) = 9" by (simp add: SCHEMA_def)
  moreover have "list_all (\<lambda>column. length column = 0) (replicate (length SCHEMA - 1) ([] :: pyval list))"
    by (simp add: list_all_iff)
  ultimately obtain data where d:
    "(collect_documents tut chunks [] (replicate (length SCHEMA - 1) [])
       :: 'e error + (string list \<times> pyval list list)) = Inr ([] @ map fst chunks, data)"
    "length data = 9" "list_all (\<lambda>column. length column = 0 + surviving chunks) data"
    using collect_documents_columns by blast
  then obtain column columns where dc: "data = column # columns" by (cases data) auto
  with d(3) have len: "length column = surviving chunks" by simp
  have ib: "insert_batches (col_insert col) [data] st =
      (if surviving chunks = 0 then Inr st
       else case col_insert col data st of
              Inl e \<Rightarrow> Inl (StoreException e)
            | Inr st' \<Rightarrow> Inr st')"
    by (simp add: dc len split: sum.splits)
  have "upsert tut col chunks st =
       (if surviving chunks = 0 then Inr (map fst chunks, st)
        else case col_insert col data st of
               Inl e \<Rightarrow> Inl (StoreException e)
             | Inr st' \<Rightarrow> Inr (map fst chunks, st'))"
    by (simp only: upsert_def d(1) sum.case prod.case append_Nil make_batches_single[OF d(2)] ib)
       (simp split: sum.splits)
  with d(2,3) show ?thesis by auto
qed

lemma survives_full: "survives full_chunk"
  by (simp add: survives_def full_chunk_def)

lemma surviving_replicate: "surviving [(d, replicate n c)] = (if survives c then n else 0)"
  by (induction n) (simp_all add: surviving_def)

lemma upsert_replicate:
  fixes col :: "('st, 'e) collection"
  assumes "survives c" "0 < n"
  shows "\<exists>batch. list_all (\<lambda>column. length column = n) batch \<and>
           upsert tut col [(d, replicate n c)] st =
             (case col_insert col batch st of
                Inl e \<Rightarrow> Inl (StoreException e)
              | Inr st' \<Rightarrow> Inr ([d], st'))"
proof -
  have s: "surviving [(d, replicate n c)] = n"
    using assms by (simp only: surviving_replicate if_True)
  from upsert_one_insert[of "[(d, replicate n c)]" tut col st]
  obtain data where "list_all (\<lambda>column. length column = surviving [(d, replicate n c)]) data"
    "upsert tut col [(d, replicate n c)] st =
       (if surviving [(d, replicate n c)] = 0 then Inr (map fst [(d, replicate n c)], st)
        else case col_insert col data st of
               Inl e \<Rightarrow> Inl (StoreException e)
             | Inr st' \<Rightarrow> Inr (map fst [(d, replicate n c)], st'))"
    by blast
  then show ?thesis
    unfolding s using assms(2) by (intro exI[of _ data]) (simp split: sum.splits)
qed


text \<open>
  C1 (the code differs). The claim: the surviving rows are cut into batches of 100
  rows and the number of insert calls is the number of rows divided by 100, rounded
  up. The code slices the list of the nine columns, not the rows, so \<open>batches\<close> is
  always the one batch of all rows (\<open>upsert_one_insert\<close>): on the recording store an
  upsert of 101 complete chunks makes one insert call, with columns of 101 entries,
  where the claim counts two.
\<close>

theorem upsert_101_chunks_single_insert:
  "\<exists>batch. upsert (\<lambda>v. 0) recording [(''doc'', replicate 101 full_chunk)] [] =
             Inr ([''doc''], [batch]) \<and>
           list_all (\<lambda>column. length column = 101) batch"
proof -
  have "(0::nat) < 101" by simp
  from upsert_replicate[OF survives_full this, of "\<lambda>v. 0" recording "''doc''" "[]"]
  obtain batch where b: "list_all (\<lambda>column. length column = 101) batch"
    "upsert (\<lambda>v. 0) recording [(''doc'', replicate 101 full_chunk)] [] =
       (case col_insert recording batch [] of
          Inl e \<Rightarrow> Inl (StoreException e)
        | Inr st' \<Rightarrow> Inr ([''doc''], st'))"
    by blast
  have "col_insert recording batch [] = Inr [batch]" by (simp add: recording_def)
  with b show ?thesis by (intro exI[of _ batch]) (simp only: sum.case simp_thms)
qed






text \<open>
  C3. \<open>_upsert\<close> returns exactly one document id for each key of its input, in the
  order of the input: whenever it returns, the list it returns is the list of the
  keys; it returns whenever the store's insert raises nothing; and when every chunk
  of every key is skipped for a missing required field, it returns all the keys and
  leaves the store as it was, so a document id is reported although nothing was
  stored for it.
\<close>

theorem upsert_returns_every_document_id:
  fixes col :: "('st, 'e) collection"
  shows "(upsert tut col chunks st = Inr (ids, st') \<longrightarrow> ids = map fst chunks) \<and>
         ((\<forall>batch s. \<exists>s'. col_insert col batch s = Inr s') \<longrightarrow>
            (\<exists>s'. upsert tut col chunks st = Inr (map fst chunks, s'))) \<and>
         (surviving chunks = 0 \<longrightarrow> upsert tut col chunks st = Inr (map fst chunks, st))"
proof -
  from upsert_one_insert[of chunks tut col st]
  obtain data where d: "upsert tut col chunks st =
       (if surviving chunks = 0 then Inr (map fst chunks, st)
        else case col_insert col data st of
               Inl e \<Rightarrow> Inl (StoreException e)
             | Inr st' \<Rightarrow> Inr (map fst chunks, st'))" by blast
  have a: "upsert tut col chunks st = Inr (ids, st') \<longrightarrow> ids = map fst chunks"
    unfolding d by (auto split: if_splits sum.splits)
  have b: "(\<forall>batch s. \<exists>s'. col_insert col batch s = Inr s') \<longrightarrow>
            (\<exists>s'. upsert tut col chunks st = Inr (map fst chunks, s'))"
  proof
    assume "\<forall>batch s. \<exists>s'. col_insert col batch s = Inr s'"
    then obtain s' where "col_insert col data st = Inr s'" by blast
    then show "\<exists>s'. upsert tut col chunks st = Inr (map fst chunks, s')"
      unfolding d by simp
  qed
  have c: "surviving chunks = 0 \<longrightarrow> upsert tut col chunks st = Inr (map fst chunks, st)"
    unfolding d by simp
  from a b c show ?thesis by blast
qed

theorem upsert_returns_every_document_id_witness:
  "surviving [(''doc1'', [no_text_chunk]), (''doc2'', [])] = 0 \<and>
   (\<forall>batch s. \<exists>s'. col_insert recording batch s = Inr s') \<and>
   upsert (\<lambda>v. 0) recording [(''doc1'', [no_text_chunk]), (''doc2'', [])] [] =
     Inr ([''doc1'', ''doc2''], [])"
proof -
  have s: "surviving [(''doc1'', [no_text_chunk]), (''doc2'', [])] = 0"
    by (simp add: surviving_def survives_def no_text_chunk_def full_chunk_def)
  have i: "\<forall>batch s. \<exists>s'. col_insert recording batch s = Inr s'"
    by (simp add: recording_def)
  from upsert_returns_every_document_id
         [of "\<lambda>v. 0" recording "[(''doc1'', [no_text_chunk]), (''doc2'', [])]" "[]"
             "[''doc1'', ''doc2'']" "[]"]
  have "surviving [(''doc1'', [no_text_chunk]), (''doc2'', [])] = 0 \<longrightarrow>
        upsert (\<lambda>v. 0) recording [(''doc1'', [no_text_chunk]), (''doc2'', [])] [] =
          Inr (map fst [(''doc1'', [no_text_chunk]), (''doc2'', [])], [])"
    by (rule conjunct2[THEN conjunct2])
  with s have "upsert (\<lambda>v. 0) recording [(''doc1'', [no_text_chunk]), (''doc2'', [])] [] =
          Inr (map fst [(''doc1'', [no_text_chunk]), (''doc2'', [])], [])"
    by (rule_tac mp)
  then have "upsert (\<lambda>v. 0) recording [(''doc1'', [no_text_chunk]), (''doc2'', [])] [] =
     Inr ([''doc1'', ''doc2''], [])"
    by (simp only: list.map fst_conv)
  with s i show ?thesis by (intro conjI)
qed

lemma get_values_eqI:
  assumes "chunk_id c = chunk_id c'" "chunk_text c = chunk_text c'" "embedding c = embedding c'"
    and "(case document_id (metadata c) of None \<Rightarrow> [] | Some s \<Rightarrow> s) =
         (case document_id (metadata c') of None \<Rightarrow> [] | Some s \<Rightarrow> s)"
    and "(case source_id (metadata c) of None \<Rightarrow> [] | Some s \<Rightarrow> s) =
         (case source_id (metadata c') of None \<Rightarrow> [] | Some s \<Rightarrow> s)"
    and "(case source (metadata c) of None \<Rightarrow> [] | Some m \<Rightarrow> member_value m) =
         (case source (metadata c') of None \<Rightarrow> [] | Some m \<Rightarrow> member_value m)"
    and "(case url (metadata c) of None \<Rightarrow> [] | Some s \<Rightarrow> s) =
         (case url (metadata c') of None \<Rightarrow> [] | Some s \<Rightarrow> s)"
    and "(case created_at (metadata c) of None \<Rightarrow> - 1
          | Some s \<Rightarrow> if s = [] \<or> tut (VStr s) = 0 then - 1 else tut (VStr s)) =
         (case created_at (metadata c') of None \<Rightarrow> - 1
          | Some s \<Rightarrow> if s = [] \<or> tut (VStr s) = 0 then - 1 else tut (VStr s))"
    and "(case author (metadata c) of None \<Rightarrow> [] | Some s \<Rightarrow> s) =
         (case author (metadata c') of None \<Rightarrow> [] | Some s \<Rightarrow> s)"
  shows "(get_values tut c :: 'e error + pyval list option) = get_values tut c'"
proof (cases "survives c")
  case True
  then obtain t e where te: "chunk_text c = Some t" "t \<noteq> []" "embedding c = Some e" "e \<noteq> []"
    by (cases "chunk_text c"; cases "embedding c") (auto simp: survives_def)
  with assms(2,3) have te': "chunk_text c' = Some t" "t \<noteq> []" "embedding c' = Some e" "e \<noteq> []"
    by simp_all
  show ?thesis
    unfolding get_values_row[OF te] get_values_row[OF te'] using assms by simp
next
  case False
  with assms(2,3) have "\<not> survives c'" by (simp add: survives_def)
  with False show ?thesis by (simp add: get_values_not_survives)
qed

text \<open>
  The timestamp zero is falsy too: a date that \<open>to_unix_timestamp\<close> maps to \<open>0\<close> is
  stored as the default \<open>-1\<close>.
\<close>

lemma get_values_zero_timestamp:
  assumes "chunk_text c = Some t" "t \<noteq> []" "embedding c = Some e" "e \<noteq> []"
    and "created_at (metadata c) = Some d" "tut (VStr d) = 0"
  shows "\<exists>row. (get_values tut c :: 'e error + pyval list option) = Inr (Some row) \<and>
           row ! 7 = VInt (- 1)"
  by (simp add: get_values_row[OF assms(1-4)] assms(5,6))

text \<open>
  C10. \<open>_get_values\<close> reads every field through \<open>values.get(key) or default\<close>, so a
  value that is present but falsy counts as absent: a chunk whose text is the empty
  string or whose embedding is the empty list is skipped, as one without text or
  without embedding is; and a chunk whose optional field is present but falsy (an
  empty string, a source of empty value) gives the row of the chunk without that
  field, which holds the default of the schema in that column.
\<close>

theorem get_values_falsy_as_absent:
  "(get_values tut (c\<lparr>chunk_text := Some []\<rparr>) :: 'e error + pyval list option) = Inr None \<and>
   (get_values tut (c\<lparr>chunk_text := None\<rparr>) :: 'e error + pyval list option) = Inr None \<and>
   (get_values tut (c\<lparr>embedding := Some []\<rparr>) :: 'e error + pyval list option) = Inr None \<and>
   (get_values tut (c\<lparr>embedding := None\<rparr>) :: 'e error + pyval list option) = Inr None \<and>
   (get_values tut (c\<lparr>metadata := m\<lparr>document_id := Some []\<rparr>\<rparr>) :: 'e error + pyval list option) =
      get_values tut (c\<lparr>metadata := m\<lparr>document_id := None\<rparr>\<rparr>) \<and>
   (get_values tut (c\<lparr>metadata := m\<lparr>source_id := Some []\<rparr>\<rparr>) :: 'e error + pyval list option) =
      get_values tut (c\<lparr>metadata := m\<lparr>source_id := None\<rparr>\<rparr>) \<and>
   (get_values tut (c\<lparr>metadata := m\<lparr>source := Some (Member n [])\<rparr>\<rparr>) :: 'e error + pyval list option) =
      get_values tut (c\<lparr>metadata := m\<lparr>source := None\<rparr>\<rparr>) \<and>
   (get_values tut (c\<lparr>metadata := m\<lparr>url := Some []\<rparr>\<rparr>) :: 'e error + pyval list option) =
      get_values tut (c\<lparr>metadata := m\<lparr>url := None\<rparr>\<rparr>) \<and>
   (get_values tut (c\<lparr>metadata := m\<lparr>created_at := Some []\<rparr>\<rparr>) :: 'e error + pyval list option) =
      get_values tut (c\<lparr>metadata := m\<lparr>created_at := None\<rparr>\<rparr>) \<and>
   (get_values tut (c\<lparr>metadata := m\<lparr>author := Some []\<rparr>\<rparr>) :: 'e error + pyval list option) =
      get_values tut (c\<lparr>metadata := m\<lparr>author := None\<rparr>\<rparr>) \<and>
   (get_values tut
      \<lparr>chunk_id = i, chunk_text = Some (a # t), embedding = Some (x # e),
       metadata = \<lparr>document_id = None, source_id = None, source = None, url = None,
                   created_at = None, author = None\<rparr>\<rparr> :: 'e error + pyval list option) =
      Inr (Some [VVec (x # e), VStr (a # t), VStr [], VStr [], VStr i, VStr [], VStr [],
                 VInt (- 1), VStr []])"
proof -
  have skip: "(get_values tut (c\<lparr>chunk_text := Some []\<rparr>) :: 'e error + pyval list option) = Inr None"
    "(get_values tut (c\<lparr>chunk_text := None\<rparr>) :: 'e error + pyval list option) = Inr None"
    "(get_values tut (c\<lparr>embedding := Some []\<rparr>) :: 'e error + pyval list option) = Inr None"
    "(get_values tut (c\<lparr>embedding := None\<rparr>) :: 'e error + pyval list option) = Inr None"
    by (rule get_values_not_survives, simp add: survives_def)+
  have eqs:
    "(get_values tut (c\<lparr>metadata := m\<lparr>document_id := Some []\<rparr>\<rparr>) :: 'e error + pyval list option) =
      get_values tut (c\<lparr>metadata := m\<lparr>document_id := None\<rparr>\<rparr>)"
    "(get_values tut (c\<lparr>metadata := m\<lparr>source_id := Some []\<rparr>\<rparr>) :: 'e error + pyval list option) =
      get_values tut (c\<lparr>metadata := m\<lparr>source_id := None\<rparr>\<rparr>)"
    "(get_values tut (c\<lparr>metadata := m\<lparr>source := Some (Member n [])\<rparr>\<rparr>) :: 'e error + pyval list option) =
      get_values tut (c\<lparr>metadata := m\<lparr>source := None\<rparr>\<rparr>)"
    "(get_values tut (c\<lparr>metadata := m\<lparr>url := Some []\<rparr>\<rparr>) :: 'e error + pyval list option) =
      get_values tut (c\<lparr>metadata := m\<lparr>url := None\<rparr>\<rparr>)"
    "(get_values tut (c\<lparr>metadata := m\<lparr>created_at := Some []\<rparr>\<rparr>) :: 'e error + pyval list option) =
      get_values tut (c\<lparr>metadata := m\<lparr>created_at := None\<rparr>\<rparr>)"
    "(get_values tut (c\<lparr>metadata := m\<lparr>author := Some []\<rparr>\<rparr>) :: 'e error + pyval list option) =
      get_values tut (c\<lparr>metadata := m\<lparr>author := None\<rparr>\<rparr>)"
    by (rule get_values_eqI; simp)+
  have row: "(get_values tut
      \<lparr>chunk_id = i, chunk_text = Some (a # t), embedding = Some (x # e),
       metadata = \<lparr>document_id = None, source_id = None, source = None, url = None,
                   created_at = None, author = None\<rparr>\<rparr> :: 'e error + pyval list option) =
      Inr (Some [VVec (x # e), VStr (a # t), VStr [], VStr [], VStr i, VStr [], VStr [],
                 VInt (- 1), VStr []])"
    by (subst get_values_row[where t = "a # t" and e = "x # e"]) simp_all
  from skip eqs row show ?thesis by (intro conjI)
qed

section \<open>Properties of \<open>_get_filter\<close>\<close>

lemma filter_loop_source:
  "(filter_loop tut ((''source'', map_option FSource x) # items) filters :: 'e error + string list) =
     filter_loop tut items
       (filters @ (case x of None \<Rightarrow> [] | Some m \<Rightarrow> [''(source == \"'' @ member_value m @ ''\")'']))"
  by (cases x) simp_all

lemma filter_loop_start_date:
  "(filter_loop tut ((''start_date'', map_option FStr x) # items) filters :: 'e error + string list) =
     filter_loop tut items
       (filters @ (case x of None \<Rightarrow> []
                   | Some d \<Rightarrow> [''(created_at >= '' @ str_int (tut (VStr d)) @ '')'']))"
  by (cases x) simp_all

lemma filter_loop_end_date:
  "(filter_loop tut ((''end_date'', map_option FStr x) # items) filters :: 'e error + string list) =
     filter_loop tut items
       (filters @ (case x of None \<Rightarrow> []
                   | Some d \<Rightarrow> [''(created_at <= '' @ str_int (tut (VStr d)) @ '')'']))"
  by (cases x) simp_all

lemma get_filter_clauses:
  "(get_filter tut f :: 'e error + string) =
     Inr (join '' and ''
       ((case filter_document_id f of None \<Rightarrow> []
         | Some v \<Rightarrow> [''(document_id == \"'' @ v @ ''\")'']) @
        (case filter_source_id f of None \<Rightarrow> []
         | Some v \<Rightarrow> [''(source_id == \"'' @ v @ ''\")'']) @
        (case filter_source f of None \<Rightarrow> []
         | Some m \<Rightarrow> [''(source == \"'' @ member_value m @ ''\")'']) @
        (case filter_author f of None \<Rightarrow> []
         | Some v \<Rightarrow> [''(author == \"'' @ v @ ''\")'']) @
        (case start_date f of None \<Rightarrow> []
         | Some d \<Rightarrow> [''(created_at >= '' @ str_int (tut (VStr d)) @ '')'']) @
        (case end_date f of None \<Rightarrow> []
         | Some d \<Rightarrow> [''(created_at <= '' @ str_int (tut (VStr d)) @ '')''])))"
proof -
  have doc: "(filter_loop tut ((''document_id'', map_option FStr x) # items) filters :: 'e error + string list) =
     filter_loop tut items
       (filters @ (case x of None \<Rightarrow> [] | Some v \<Rightarrow> [''(document_id == \"'' @ v @ ''\")'']))"
    for x items filters
    by (cases x) simp_all
  have sid: "(filter_loop tut ((''source_id'', map_option FStr x) # items) filters :: 'e error + string list) =
     filter_loop tut items
       (filters @ (case x of None \<Rightarrow> [] | Some v \<Rightarrow> [''(source_id == \"'' @ v @ ''\")'']))"
    for x items filters
    by (cases x) simp_all
  have aut: "(filter_loop tut ((''author'', map_option FStr x) # items) filters :: 'e error + string list) =
     filter_loop tut items
       (filters @ (case x of None \<Rightarrow> [] | Some v \<Rightarrow> [''(author == \"'' @ v @ ''\")'']))"
    for x items filters
    by (cases x) simp_all
  show ?thesis
    unfolding get_filter_def filter_dict_def
    by (simp only: doc sid aut filter_loop_source filter_loop_start_date filter_loop_end_date
          filter_loop.simps(1) sum.case append_Nil append_assoc)
qed

text \<open>
  C4. \<open>_get_filter\<close> turns a filter with no field set into the empty expression, a
  filter with one field set into the one predicate of that field
  (\<open>created_at >= to_unix_timestamp(value)\<close> for \<open>start_date\<close>,
  \<open>created_at <= to_unix_timestamp(value)\<close> for \<open>end_date\<close>, \<open>source == "value of the
  member"\<close> for \<open>source\<close>, \<open>field == "value"\<close> for any other field, each in
  parentheses), and any filter into the predicates of its set fields, in the order of
  the fields, joined with \<open>and\<close>. It never raises.
\<close>

theorem get_filter_forms:
  "(get_filter tut no_filter :: 'e error + string) = Inr [] \<and>
   (get_filter tut (no_filter\<lparr>start_date := Some d\<rparr>) :: 'e error + string) =
      Inr (''(created_at >= '' @ str_int (tut (VStr d)) @ '')'') \<and>
   (get_filter tut (no_filter\<lparr>end_date := Some d\<rparr>) :: 'e error + string) =
      Inr (''(created_at <= '' @ str_int (tut (VStr d)) @ '')'') \<and>
   (get_filter tut (no_filter\<lparr>filter_source := Some m\<rparr>) :: 'e error + string) =
      Inr (''(source == \"'' @ member_value m @ ''\")'') \<and>
   (get_filter tut (no_filter\<lparr>filter_document_id := Some v\<rparr>) :: 'e error + string) =
      Inr (''(document_id == \"'' @ v @ ''\")'') \<and>
   (get_filter tut (no_filter\<lparr>filter_source_id := Some v\<rparr>) :: 'e error + string) =
      Inr (''(source_id == \"'' @ v @ ''\")'') \<and>
   (get_filter tut (no_filter\<lparr>filter_author := Some v\<rparr>) :: 'e error + string) =
      Inr (''(author == \"'' @ v @ ''\")'') \<and>
   (get_filter tut f :: 'e error + string) =
     Inr (join '' and ''
       ((case filter_document_id f of None \<Rightarrow> []
         | Some v \<Rightarrow> [''(document_id == \"'' @ v @ ''\")'']) @
        (case filter_source_id f of None \<Rightarrow> []
         | Some v \<Rightarrow> [''(source_id == \"'' @ v @ ''\")'']) @
        (case filter_source f of None \<Rightarrow> []
         | Some m \<Rightarrow> [''(source == \"'' @ member_value m @ ''\")'']) @
        (case filter_author f of None \<Rightarrow> []
         | Some v \<Rightarrow> [''(author == \"'' @ v @ ''\")'']) @
        (case start_date f of None \<Rightarrow> []
         | Some d \<Rightarrow> [''(created_at >= '' @ str_int (tut (VStr d)) @ '')'']) @
        (case end_date f of None \<Rightarrow> []
         | Some d \<Rightarrow> [''(created_at <= '' @ str_int (tut (VStr d)) @ '')''])))"
  by (intro conjI; (rule get_filter_clauses | simp add: get_filter_clauses no_filter_def))

section \<open>Properties of \<open>_query\<close>\<close>

text \<open>
  C2 (corrected). The claim: the fields requested from the store leave out \<open>text\<close>
  and \<open>embedding\<close>, as well as the primary key. The request of every search names
  \<open>SCHEMA[2:]\<close>, which starts at \<open>text\<close>: it leaves out \<open>pk\<close> and \<open>embedding\<close> and
  asks for \<open>text\<close>, which the hit loop pops into the chunk of the result.
\<close>

theorem search_requests_text_not_embedding:
  "req_output_fields (search_args flt q) =
     [''text'', ''document_id'', ''source_id'', ''id'', ''source'', ''url'', ''created_at'',
      ''author''] \<and>
   ''pk'' \<notin> set (req_output_fields (search_args flt q)) \<and>
   ''embedding'' \<notin> set (req_output_fields (search_args flt q)) \<and>
   ''text'' \<in> set (req_output_fields (search_args flt q))"
  by (simp add: search_args_def output_fields_def SCHEMA_def)

theorem search_requests_text_counterexample:
  "''text'' \<in> set (req_output_fields
      (search_args None \<lparr>q_query = ''q'', q_filter = None, q_top_k = 3, q_embedding = [1]\<rparr>))"
  by (simp add: search_args_def output_fields_def SCHEMA_def)

lemma hit_chunk_eq:
  "(hit_chunk names h :: 'e error + DocumentChunkWithScore) =
     (case in_members names (dict_get (hit_entity h) ''source'') of
        Inl e \<Rightarrow> Inl e
      | Inr known \<Rightarrow>
          Inr \<lparr>res_id = dict_get (hit_entity h) ''id'', res_score = hit_score h,
               res_text = dict_get (hit_entity h) ''text'',
               res_metadata =
                 [(''document_id'', dict_get (hit_entity h) ''document_id''),
                  (''source_id'', dict_get (hit_entity h) ''source_id''),
                  (''source'', if known then dict_get (hit_entity h) ''source'' else VNone),
                  (''url'', dict_get (hit_entity h) ''url''),
                  (''created_at'', dict_get (hit_entity h) ''created_at''),
                  (''author'', dict_get (hit_entity h) ''author'')]\<rparr>)"
  by (simp add: hit_chunk_def output_fields_def SCHEMA_def split: sum.splits)

lemma hit_chunks_sources:
  assumes "list_all (\<lambda>h. \<exists>known. (in_members names (dict_get (hit_entity h) ''source'')
                                      :: 'e error + bool) = Inr known) hits"
  shows "\<exists>cs. (hit_chunks names hits results :: 'e error + DocumentChunkWithScore list) =
              Inr (results @ cs) \<and>
           list_all2
             (\<lambda>h c. (in_members names (dict_get (hit_entity h) ''source'') :: 'e error + bool)
                        = Inr False \<longrightarrow>
                     dict_get (res_metadata c) ''source'' = VNone \<and>
                     res_id c = dict_get (hit_entity h) ''id'' \<and>
                     res_text c = dict_get (hit_entity h) ''text'' \<and>
                     res_score c = hit_score h) hits cs"
  using assms
proof (induction hits arbitrary: results)
  case Nil
  then show ?case by simp
next
  case (Cons h hits)
  from Cons.prems obtain known where
    m: "(in_members names (dict_get (hit_entity h) ''source'') :: 'e error + bool) = Inr known"
    and rest: "list_all (\<lambda>h. \<exists>known. (in_members names (dict_get (hit_entity h) ''source'')
                                      :: 'e error + bool) = Inr known) hits"
    by auto
  obtain c where c: "(hit_chunk names h :: 'e error + DocumentChunkWithScore) = Inr c"
    "\<not> known \<longrightarrow> dict_get (res_metadata c) ''source'' = VNone"
    "res_id c = dict_get (hit_entity h) ''id''"
    "res_text c = dict_get (hit_entity h) ''text''"
    "res_score c = hit_score h"
    by (simp add: hit_chunk_eq m)
  from Cons.IH[OF rest, of "results @ [c]"] obtain cs where
    cs: "(hit_chunks names hits (results @ [c]) :: 'e error + DocumentChunkWithScore list) =
           Inr ((results @ [c]) @ cs)"
      "list_all2
             (\<lambda>h c. (in_members names (dict_get (hit_entity h) ''source'') :: 'e error + bool)
                        = Inr False \<longrightarrow>
                     dict_get (res_metadata c) ''source'' = VNone \<and>
                     res_id c = dict_get (hit_entity h) ''id'' \<and>
                     res_text c = dict_get (hit_entity h) ''text'' \<and>
                     res_score c = hit_score h) hits cs"
    by blast
  show ?case
    by (rule exI[of _ "c # cs"]) (use c cs m in simp)
qed

lemma get_filter_ok: "\<exists>x. (get_filter tut f :: 'e error + string) = Inr x"
  by (simp add: get_filter_clauses)

lemma query_expr_ok: "\<exists>flt. (query_expr tut q :: 'e error + string option) = Inr flt"
proof (cases "q_filter q")
  case None
  then show ?thesis by (simp add: query_expr_def)
next
  case (Some f)
  obtain x where "(get_filter tut f :: 'e error + string) = Inr x"
    using get_filter_ok by blast
  with Some show ?thesis by (simp add: query_expr_def)
qed

text \<open>
  C5. A hit whose \<open>source\<close> is not the name of a declared member of \<open>Source\<close> is
  kept and gets the source \<open>None\<close>: when the search of a query returns hits (whose
  sources are strings, integers or \<open>None\<close>, so that the lookup among the member names
  can be made), \<open>_single_query\<close> raises nothing and returns one chunk for every hit,
  in order, and the chunk of a hit whose source is no member name has \<open>source\<close>
  \<open>None\<close> in its metadata and the id, text and score of the hit.
\<close>

theorem unknown_source_becomes_none:
  fixes col :: "('st, 'e) collection"
  assumes "(query_expr tut q :: 'e error + string option) = Inr flt"
    and "col_search col (search_args flt q) st = Inr hits"
    and "list_all (\<lambda>h. \<exists>known. (in_members names (dict_get (hit_entity h) ''source'')
                                      :: 'e error + bool) = Inr known) hits"
  shows "\<exists>rs. single_query tut names col st q = Inr \<lparr>r_query = q_query q, r_results = rs\<rparr> \<and>
           length rs = length hits \<and>
           list_all2
             (\<lambda>h c. (in_members names (dict_get (hit_entity h) ''source'') :: 'e error + bool)
                        = Inr False \<longrightarrow>
                     dict_get (res_metadata c) ''source'' = VNone \<and>
                     res_id c = dict_get (hit_entity h) ''id'' \<and>
                     res_text c = dict_get (hit_entity h) ''text'' \<and>
                     res_score c = hit_score h) hits rs"
proof -
  from hit_chunks_sources[OF assms(3), of "[]"] obtain cs where
    cs: "(hit_chunks names hits [] :: 'e error + DocumentChunkWithScore list) = Inr ([] @ cs)"
      "list_all2
             (\<lambda>h c. (in_members names (dict_get (hit_entity h) ''source'') :: 'e error + bool)
                        = Inr False \<longrightarrow>
                     dict_get (res_metadata c) ''source'' = VNone \<and>
                     res_id c = dict_get (hit_entity h) ''id'' \<and>
                     res_text c = dict_get (hit_entity h) ''text'' \<and>
                     res_score c = hit_score h) hits cs"
    by blast
  from cs(2) have "length cs = length hits" by (simp add: list_all2_lengthD)
  with cs show ?thesis
    by (intro exI[of _ cs]) (simp add: single_query_def assms(1,2))
qed

theorem unknown_source_becomes_none_witness:
  "(query_expr (\<lambda>v. 0) plain_query :: string error + string option) = Inr None \<and>
   col_search (searching [fax_hit, email_hit]) (search_args None plain_query) [] =
     Inr [fax_hit, email_hit] \<and>
   list_all (\<lambda>h. \<exists>known. (in_members source_names (dict_get (hit_entity h) ''source'')
                                      :: string error + bool) = Inr known) [fax_hit, email_hit] \<and>
   (in_members source_names (dict_get (hit_entity fax_hit) ''source'') :: string error + bool)
     = Inr False \<and>
   (\<exists>c c'. single_query (\<lambda>v. 0) source_names (searching [fax_hit, email_hit]) [] plain_query =
            Inr \<lparr>r_query = ''q'', r_results = [c, c']\<rparr> \<and>
          dict_get (res_metadata c) ''source'' = VNone \<and>
          res_id c = VStr ''doc_0'' \<and> res_text c = VStr ''hello'' \<and> res_score c = 1)"
proof -
  have a: "(query_expr (\<lambda>v. 0) plain_query :: string error + string option) = Inr None"
    by (simp add: query_expr_def plain_query_def)
  have b: "col_search (searching [fax_hit, email_hit]) (search_args None plain_query) [] =
     Inr [fax_hit, email_hit]"
    by (simp add: searching_def recording_def)
  have c: "list_all (\<lambda>h. \<exists>known. (in_members source_names (dict_get (hit_entity h) ''source'')
                                      :: string error + bool) = Inr known) [fax_hit, email_hit]"
    by (auto simp: fax_hit_def email_hit_def source_names_def)
  have d: "(in_members source_names (dict_get (hit_entity fax_hit) ''source'') :: string error + bool)
     = Inr False"
    by (simp add: fax_hit_def source_names_def)
  from unknown_source_becomes_none[OF a b c] obtain rs where
    rs: "single_query (\<lambda>v. 0) source_names (searching [fax_hit, email_hit]) [] plain_query =
            Inr \<lparr>r_query = q_query plain_query, r_results = rs\<rparr>"
      "list_all2
             (\<lambda>h c. (in_members source_names (dict_get (hit_entity h) ''source'') :: string error + bool)
                        = Inr False \<longrightarrow>
                     dict_get (res_metadata c) ''source'' = VNone \<and>
                     res_id c = dict_get (hit_entity h) ''id'' \<and>
                     res_text c = dict_get (hit_entity h) ''text'' \<and>
                     res_score c = hit_score h) [fax_hit, email_hit] rs"
    by blast
  from rs(2) obtain c1 c2 where cc: "rs = [c1, c2]"
    by (auto simp: list_all2_Cons1)
  from rs(2) d have "dict_get (res_metadata c1) ''source'' = VNone \<and>
      res_id c1 = dict_get (hit_entity fax_hit) ''id'' \<and>
      res_text c1 = dict_get (hit_entity fax_hit) ''text'' \<and>
      res_score c1 = hit_score fax_hit"
    unfolding cc by simp
  then have "dict_get (res_metadata c1) ''source'' = VNone \<and>
          res_id c1 = VStr ''doc_0'' \<and> res_text c1 = VStr ''hello'' \<and> res_score c1 = 1"
    by (simp add: fax_hit_def)
  with rs(1) cc have "\<exists>c c'. single_query (\<lambda>v. 0) source_names (searching [fax_hit, email_hit]) [] plain_query =
            Inr \<lparr>r_query = ''q'', r_results = [c, c']\<rparr> \<and>
          dict_get (res_metadata c) ''source'' = VNone \<and>
          res_id c = VStr ''doc_0'' \<and> res_text c = VStr ''hello'' \<and> res_score c = 1"
    by (auto simp: plain_query_def)
  with a b c d show ?thesis by (intro conjI)
qed

lemma row_hit_entity:
  "hit_entity (row_hit sc [v1, v2, v3, v4, v5, v6, v7, v8, v9]) =
     [(''text'', v2), (''document_id'', v3), (''source_id'', v4), (''id'', v5), (''source'', v6),
      (''url'', v7), (''created_at'', v8), (''author'', v9)]"
  by (simp add: row_hit_def output_fields_def SCHEMA_def)

lemma hit_score_row_hit: "hit_score (row_hit sc row) = sc"
  by (simp add: row_hit_def)

text \<open>
  C6 (corrected). The claim: a chunk with all fields populated, flattened by
  \<open>_get_values\<close> and reassembled by the hit loop, comes back with its text, id and
  metadata as inserted. The text, the id, \<open>document_id\<close>, \<open>source_id\<close>, \<open>url\<close> and
  \<open>author\<close> do come back as the strings inserted. \<open>created_at\<close> comes back as the
  integer that \<open>to_unix_timestamp\<close> made of the date (\<open>-1\<close> for an empty date or a
  timestamp of zero), not as the date inserted; \<open>source\<close> comes back as the string
  value of the member when that value is the name of a declared member, and as
  \<open>None\<close> otherwise.
\<close>

theorem round_trip_of_populated_chunk:
  assumes "chunk_text c = Some t" "t \<noteq> []" "embedding c = Some e" "e \<noteq> []"
    and "document_id (metadata c) = Some d" "source_id (metadata c) = Some sid"
    and "source (metadata c) = Some src" "url (metadata c) = Some u"
    and "created_at (metadata c) = Some cr" "author (metadata c) = Some a"
  shows "\<exists>row. (get_values tut c :: 'e error + pyval list option) = Inr (Some row) \<and>
     (hit_chunk names (row_hit sc row) :: 'e error + DocumentChunkWithScore) =
       Inr \<lparr>res_id = VStr (chunk_id c), res_score = sc, res_text = VStr t,
            res_metadata =
              [(''document_id'', VStr d),
               (''source_id'', VStr sid),
               (''source'', if member_value src \<in> set names then VStr (member_value src) else VNone),
               (''url'', VStr u),
               (''created_at'', VInt (if cr = [] \<or> tut (VStr cr) = 0 then - 1 else tut (VStr cr))),
               (''author'', VStr a)]\<rparr>"
  by (simp add: get_values_row[OF assms(1-4)] assms(5-) hit_chunk_eq row_hit_entity hit_score_row_hit)

theorem round_trip_of_populated_chunk_witness:
  "\<exists>row. (get_values (\<lambda>v. 1672531200) full_chunk :: string error + pyval list option) = Inr (Some row) \<and>
     (hit_chunk source_names (row_hit 1 row) :: string error + DocumentChunkWithScore) =
       Inr \<lparr>res_id = VStr ''doc_0'', res_score = 1, res_text = VStr ''hello'',
            res_metadata =
              [(''document_id'', VStr ''doc''),
               (''source_id'', VStr ''s1''),
               (''source'', VStr ''email''),
               (''url'', VStr ''http://x''),
               (''created_at'', VInt 1672531200),
               (''author'', VStr ''me'')]\<rparr>"
  using round_trip_of_populated_chunk[of full_chunk "''hello''" "[1, 2]" "''doc''" "''s1''"
          "Member ''email'' ''email''" "''http://x''" "''2023-01-01''" "''me''"
          "\<lambda>v. 1672531200" source_names 1]
  by (simp add: full_chunk_def source_names_def)

theorem round_trip_created_at_counterexample:
  "\<exists>row c. (get_values (\<lambda>v. 1672531200) full_chunk :: string error + pyval list option) = Inr (Some row) \<and>
     (hit_chunk source_names (row_hit 1 row) :: string error + DocumentChunkWithScore) = Inr c \<and>
     dict_get (chunk_dict full_chunk) ''created_at'' = VStr ''2023-01-01'' \<and>
     dict_get (res_metadata c) ''created_at'' = VInt 1672531200 \<and>
     dict_get (res_metadata c) ''created_at'' \<noteq> dict_get (chunk_dict full_chunk) ''created_at''"
proof -
  have t: "chunk_text full_chunk = Some ''hello''" "''hello'' \<noteq> []"
    "embedding full_chunk = Some [1, 2]" "[1, 2 :: real] \<noteq> []"
    by (simp_all add: full_chunk_def)
  show ?thesis
    by (simp add: get_values_row[OF t] hit_chunk_eq row_hit_entity hit_score_row_hit)
       (simp add: full_chunk_def chunk_dict_def source_names_def)
qed

lemma first_error_append:
  "first_error (xs @ ys) = (case first_error xs of Some e \<Rightarrow> Some e | None \<Rightarrow> first_error ys)"
  by (induction xs rule: first_error.induct) simp_all

lemma first_error_None: "first_error outs = None \<Longrightarrow> outs = map Inr (the_results outs)"
  by (induction outs rule: first_error.induct) simp_all

lemma first_error_map_Inr: "first_error (map Inr rs) = None"
  by (induction rs) simp_all

lemma the_results_map_Inr: "the_results (map Inr rs) = rs"
  by (induction rs) simp_all

lemma gather_Inr: "gather finished outs = Inr rs \<Longrightarrow> outs = map Inr rs"
  by (auto simp: gather_def first_error_append split: option.splits dest: first_error_None)

lemma first_error_picked:
  "first_error (map (\<lambda>i. map Inr rs ! i) (filter (\<lambda>i. i < length rs) is)) = None"
  by (induction "is") simp_all

lemma gather_all_Inr: "gather finished (map Inr rs) = (Inr rs :: 'x + 'a list)"
proof -
  have fe: "first_error (map (\<lambda>i. map Inr rs ! i) (filter (\<lambda>i. i < length (map Inr rs)) finished)
          @ map Inr rs) = (None :: 'x option)"
    by (simp only: first_error_append length_map first_error_picked first_error_map_Inr option.case)
  show ?thesis
    unfolding gather_def fe by (simp add: the_results_map_Inr)
qed

text \<open>
  C9. \<open>_query\<close> of the empty list is the empty list; whenever \<open>_query\<close> returns, it
  returns one result for each query, the i-th being that of the i-th query; and when
  every single query succeeds, \<open>_query\<close> returns, and returns the same list,
  whatever the order in which the searches complete.
\<close>

theorem query_keeps_input_order:
  fixes col :: "('st, 'e) collection"
  shows "query finished tut names col st [] = Inr [] \<and>
    (query finished tut names col st queries = Inr results \<longrightarrow>
       length results = length queries \<and>
       (\<forall>i<length queries. single_query tut names col st (queries ! i) = Inr (results ! i))) \<and>
    (list_all (\<lambda>q. \<exists>r. single_query tut names col st q = Inr r) queries \<longrightarrow>
       (\<exists>rs. \<forall>order. query order tut names col st queries = Inr rs))"
proof -
  have a: "query finished tut names col st [] = Inr []"
    by (simp add: query_def gather_def)
  have b: "query finished tut names col st queries = Inr results \<longrightarrow>
       length results = length queries \<and>
       (\<forall>i<length queries. single_query tut names col st (queries ! i) = Inr (results ! i))"
  proof
    assume "query finished tut names col st queries = Inr results"
    then have m: "map (single_query tut names col st) queries = map Inr results"
      unfolding query_def by (rule gather_Inr)
    then have l: "length results = length queries"
      using length_map by metis
    have "single_query tut names col st (queries ! i) = Inr (results ! i)" if "i < length queries" for i
    proof -
      from that have "map (single_query tut names col st) queries ! i =
          single_query tut names col st (queries ! i)" by simp
      moreover from that l have "map Inr results ! i = (Inr (results ! i) :: 'e error + QueryResult)"
        by simp
      ultimately show ?thesis using m by simp
    qed
    with l show "length results = length queries \<and>
       (\<forall>i<length queries. single_query tut names col st (queries ! i) = Inr (results ! i))"
      by blast
  qed
  have c: "list_all (\<lambda>q. \<exists>r. single_query tut names col st q = Inr r) queries \<longrightarrow>
       (\<exists>rs. \<forall>order. query order tut names col st queries = Inr rs)"
  proof
    assume h: "list_all (\<lambda>q. \<exists>r. single_query tut names col st q = Inr r) queries"
    have "map (single_query tut names col st) queries =
          map Inr (the_results (map (single_query tut names col st) queries))"
      using h
    proof (induction queries)
      case Nil
      then show ?case by simp
    next
      case (Cons q qs)
      then obtain r where "single_query tut names col st q = Inr r" by auto
      with Cons show ?case by simp
    qed
    then have "\<forall>order. query order tut names col st queries =
        Inr (the_results (map (single_query tut names col st) queries))"
      unfolding query_def using gather_all_Inr by metis
    then show "\<exists>rs. \<forall>order. query order tut names col st queries = Inr rs" by blast
  qed
  from a b c show ?thesis by (intro conjI)
qed

theorem query_keeps_input_order_witness:
  "list_all (\<lambda>q. \<exists>r. single_query (\<lambda>v. 0) source_names (searching [fax_hit]) [] q = Inr r)
     [plain_query, plain_query\<lparr>q_query := ''other''\<rparr>] \<and>
   (\<exists>rs. \<forall>order. query order (\<lambda>v. 0) source_names (searching [fax_hit]) []
                    [plain_query, plain_query\<lparr>q_query := ''other''\<rparr>] = Inr rs) \<and>
   (\<exists>rs. query [1, 0] (\<lambda>v. 0) source_names (searching [fax_hit]) []
            [plain_query, plain_query\<lparr>q_query := ''other''\<rparr>] = Inr rs \<and>
          length rs = 2 \<and>
          single_query (\<lambda>v. 0) source_names (searching [fax_hit]) [] plain_query = Inr (rs ! 0) \<and>
          single_query (\<lambda>v. 0) source_names (searching [fax_hit]) []
            (plain_query\<lparr>q_query := ''other''\<rparr>) = Inr (rs ! 1))"
proof -
  let ?qs = "[plain_query, plain_query\<lparr>q_query := ''other''\<rparr>]"
  let ?sq = "single_query (\<lambda>v. 0) source_names (searching [fax_hit]) []"
  have sq: "\<exists>r. ?sq q = Inr r" if "q_filter q = None" for q
    using that
    by (simp add: single_query_def query_expr_def searching_def recording_def hit_chunk_eq
          fax_hit_def source_names_def)
  have h: "list_all (\<lambda>q. \<exists>r. ?sq q = Inr r) ?qs"
    by (simp add: sq plain_query_def)
  note t = query_keeps_input_order[of _ "\<lambda>v. 0" source_names "searching [fax_hit]" "[]" ?qs]
  from t[of "[]"] h
  have a: "\<exists>rs. \<forall>order. query order (\<lambda>v. 0) source_names (searching [fax_hit]) [] ?qs = Inr rs"
    by blast
  then obtain rs where rs: "query [1, 0] (\<lambda>v. 0) source_names (searching [fax_hit]) [] ?qs = Inr rs"
    by blast
  from t[of "[1, 0]" rs] rs
  have l: "length rs = length ?qs"
    and n: "\<And>i. i < length ?qs \<Longrightarrow> ?sq (?qs ! i) = Inr (rs ! i)"
    by blast+
  from l have l2: "length rs = 2" by simp
  from n[of 0] have n0: "?sq plain_query = Inr (rs ! 0)" by simp
  from n[of 1] have n1: "?sq (plain_query\<lparr>q_query := ''other''\<rparr>) = Inr (rs ! 1)" by simp
  from l2 n0 n1 have "length rs = 2 \<and> ?sq plain_query = Inr (rs ! 0) \<and>
      ?sq (plain_query\<lparr>q_query := ''other''\<rparr>) = Inr (rs ! 1)"
    by (intro conjI)
  with rs have c: "\<exists>rs. query [1, 0] (\<lambda>v. 0) source_names (searching [fax_hit]) [] ?qs = Inr rs \<and>
          length rs = 2 \<and> ?sq plain_query = Inr (rs ! 0) \<and>
          ?sq (plain_query\<lparr>q_query := ''other''\<rparr>) = Inr (rs ! 1)"
    by blast
  from h a c show ?thesis by (intro conjI)
qed

section \<open>Properties of \<open>delete\<close>\<close>

lemma delete_ids_cases:
  fixes col :: "('st, 'e) collection"
  assumes "\<forall>x s. \<exists>r. col_query col x s = Inr r" "\<forall>x s. \<exists>r. col_delete col x s = Inr r"
  shows "\<exists>n s'. delete_ids col ids k st = Inr (n, s')"
proof -
  have q: "\<exists>r. col_query col x s = Inr r" for x s using assms(1) by blast
  have d: "\<exists>n s'. col_delete col x s = Inr (n, s')" for x s using assms(2) by (metis surj_pair)
  show ?thesis
  proof (cases ids)
    case None
    then show ?thesis by (simp add: delete_ids_def)
  next
    case (Some xs)
    obtain r where r: "col_query col
       (''document_id in ['' @ join '','' (map (\<lambda>i. ''\"'' @ i @ ''\"'') xs) @ '']'') st = Inr r"
      using q by blast
    obtain n s' where n: "col_delete col (''pk in ['' @ join '','' (map str_int r) @ '']'') st = Inr (n, s')"
      using d by blast
    from Some r n show ?thesis by (simp add: delete_ids_def)
  qed
qed

lemma delete_filter_cases:
  fixes col :: "('st, 'e) collection"
  assumes "\<forall>x s. \<exists>r. col_query col x s = Inr r" "\<forall>x s. \<exists>r. col_delete col x s = Inr r"
  shows "\<exists>n s'. delete_filter tut col flt k st = Inr (n, s')"
proof -
  have q: "\<exists>r. col_query col x s = Inr r" for x s using assms(1) by blast
  have d: "\<exists>n s'. col_delete col x s = Inr (n, s')" for x s using assms(2) by (metis surj_pair)
  show ?thesis
  proof (cases flt)
    case None
    then show ?thesis by (simp add: delete_filter_def)
  next
    case (Some f)
    obtain x where x: "(get_filter tut f :: 'e error + string) = Inr x"
      using get_filter_ok by blast
    obtain r where r: "col_query col x st = Inr r" using q by blast
    obtain n s' where n: "col_delete col (''pk in ['' @ join '','' (map str_int r) @ '']'') st = Inr (n, s')"
      using d by blast
    from Some x r n show ?thesis by (simp add: delete_filter_def)
  qed
qed

text \<open>
  C7. Whenever \<open>delete\<close> returns, it returns \<open>True\<close>, whatever was matched or
  deleted, and it returns whenever the store raises nothing. With \<open>delete_all\<close>
  true it releases and drops the collection, creates it again and returns: the
  outcome is that of these three operations alone, the same for any \<open>ids\<close> and
  \<open>filter\<close> as for none.
\<close>

theorem delete_returns_true:
  fixes col :: "('st, 'e) collection"
  shows "(delete tut col ids flt delete_all st = Inr (b, st') \<longrightarrow> b) \<and>
     delete tut col ids flt (Some True) st =
       (case col_release col st of
          Inl e \<Rightarrow> Inl (StoreException e)
        | Inr st1 \<Rightarrow>
        (case col_drop col st1 of
           Inl e \<Rightarrow> Inl (StoreException e)
         | Inr st2 \<Rightarrow>
         (case create_collection col True st2 of
            Inl e \<Rightarrow> Inl (StoreException e)
          | Inr st3 \<Rightarrow> Inr (True, st3)))) \<and>
     delete tut col ids flt (Some True) st = delete tut col None None (Some True) st \<and>
     ((\<forall>x s. \<exists>r. col_query col x s = Inr r) \<and> (\<forall>x s. \<exists>r. col_delete col x s = Inr r) \<and>
      (\<forall>s. \<exists>r. col_release col s = Inr r) \<and> (\<forall>s. \<exists>r. col_drop col s = Inr r) \<and>
      (\<forall>s. \<exists>r. create_collection col True s = Inr r) \<longrightarrow>
      (\<exists>s'. delete tut col ids flt delete_all st = Inr (True, s')))"
proof -
  have a: "delete tut col ids flt delete_all st = Inr (b, st') \<longrightarrow> b"
    by (auto simp: delete_def split: if_splits sum.splits prod.splits)
  have b: "delete tut col ids flt (Some True) st =
       (case col_release col st of
          Inl e \<Rightarrow> Inl (StoreException e)
        | Inr st1 \<Rightarrow>
        (case col_drop col st1 of
           Inl e \<Rightarrow> Inl (StoreException e)
         | Inr st2 \<Rightarrow>
         (case create_collection col True st2 of
            Inl e \<Rightarrow> Inl (StoreException e)
          | Inr st3 \<Rightarrow> Inr (True, st3))))"
    by (simp add: delete_def)
  have c: "delete tut col ids flt (Some True) st = delete tut col None None (Some True) st"
    by (simp add: delete_def)
  have d: "(\<forall>x s. \<exists>r. col_query col x s = Inr r) \<and> (\<forall>x s. \<exists>r. col_delete col x s = Inr r) \<and>
      (\<forall>s. \<exists>r. col_release col s = Inr r) \<and> (\<forall>s. \<exists>r. col_drop col s = Inr r) \<and>
      (\<forall>s. \<exists>r. create_collection col True s = Inr r) \<longrightarrow>
      (\<exists>s'. delete tut col ids flt delete_all st = Inr (True, s'))"
  proof
    assume h: "(\<forall>x s. \<exists>r. col_query col x s = Inr r) \<and> (\<forall>x s. \<exists>r. col_delete col x s = Inr r) \<and>
      (\<forall>s. \<exists>r. col_release col s = Inr r) \<and> (\<forall>s. \<exists>r. col_drop col s = Inr r) \<and>
      (\<forall>s. \<exists>r. create_collection col True s = Inr r)"
    show "\<exists>s'. delete tut col ids flt delete_all st = Inr (True, s')"
    proof (cases "delete_all = Some True")
      case True
      from h obtain s1 where s1: "col_release col st = Inr s1" by blast
      from h obtain s2 where s2: "col_drop col s1 = Inr s2" by blast
      from h obtain s3 where s3: "create_collection col True s2 = Inr s3" by blast
      from True s1 s2 s3 show ?thesis by (simp add: delete_def)
    next
      case False
      from h delete_ids_cases[of col ids 0 st]
      obtain n s1 where n: "delete_ids col ids 0 st = Inr (n, s1)" by blast
      from h delete_filter_cases[of col tut flt n s1]
      obtain n' s2 where n': "delete_filter tut col flt n s1 = Inr (n', s2)" by blast
      from False n n' show ?thesis by (simp add: delete_def)
    qed
  qed
  from a b c d show ?thesis by (intro conjI)
qed

theorem delete_returns_true_witness:
  "(\<forall>x s. \<exists>r. col_query recording x s = Inr r) \<and>
   (\<forall>x s. \<exists>r. col_delete recording x s = Inr r) \<and>
   (\<forall>s. \<exists>r. col_release recording s = Inr r) \<and>
   (\<forall>s. \<exists>r. col_drop recording s = Inr r) \<and>
   (\<forall>s. \<exists>r. create_collection recording True s = Inr r) \<and>
   (\<exists>s'. delete (\<lambda>v. 0) recording (Some [''doc'']) (Some no_filter) None [] = Inr (True, s')) \<and>
   delete (\<lambda>v. 0) recording (Some [''doc'']) (Some no_filter) (Some True) [] = Inr (True, [])"
proof -
  have h: "(\<forall>x s. \<exists>r. col_query recording x s = Inr r) \<and>
   (\<forall>x s. \<exists>r. col_delete recording x s = Inr r) \<and>
   (\<forall>s. \<exists>r. col_release recording s = Inr r) \<and>
   (\<forall>s. \<exists>r. col_drop recording s = Inr r) \<and>
   (\<forall>s. \<exists>r. create_collection recording True s = Inr r)"
    by (simp add: recording_def)
  note t = delete_returns_true[of "\<lambda>v. 0" recording "Some [''doc'']" "Some no_filter" _ "[]"]
  from t[of None] h
  have a: "\<exists>s'. delete (\<lambda>v. 0) recording (Some [''doc'']) (Some no_filter) None [] = Inr (True, s')"
    by blast
  from t[of None]
  have "delete (\<lambda>v. 0) recording (Some [''doc'']) (Some no_filter) (Some True) [] =
       (case col_release recording [] of
          Inl e \<Rightarrow> Inl (StoreException e)
        | Inr st1 \<Rightarrow>
        (case col_drop recording st1 of
           Inl e \<Rightarrow> Inl (StoreException e)
         | Inr st2 \<Rightarrow>
         (case create_collection recording True st2 of
            Inl e \<Rightarrow> Inl (StoreException e)
          | Inr st3 \<Rightarrow> Inr (True, st3))))"
    by (rule conjunct2[THEN conjunct1])
  then have b: "delete (\<lambda>v. 0) recording (Some [''doc'']) (Some no_filter) (Some True) [] = Inr (True, [])"
    by (simp add: recording_def)
  from h a b show ?thesis by (intro conjI) blast+
qed

end
